theory Spec2Isabelle
  imports Main
begin

section \<open>The cgroups validator of system-validators\<close>

text \<open>
  A shallow embedding of \<^verbatim>\<open>validators/cgroup_validator.go\<close>. The validator reads the
  kernel's cgroup status file with a \<^verbatim>\<open>bufio.Scanner\<close>, keeps the names of the
  subsystems whose fourth field is not \<^verbatim>\<open>"0"\<close>, and checks the required and the optional
  names of a specification against them, reporting one event per declared name.
\<close>

subsection \<open>Go values\<close>

text \<open>
  A Go slice is either \<^verbatim>\<open>nil\<close> or holds a sequence of elements: \<open>None\<close> is the nil slice,
  \<open>Some xs\<close> a non-nil slice with the elements \<open>xs\<close> (\<open>Some []\<close> is \<^verbatim>\<open>[]string{}\<close>).
  \<^verbatim>\<open>len\<close>, \<^verbatim>\<open>range\<close> and \<^verbatim>\<open>append\<close> treat the nil slice as the empty one.
\<close>

type_synonym 'a slice = "'a list option"

definition elems :: "'a slice \<Rightarrow> 'a list" where
  "elems s = (case s of None \<Rightarrow> [] | Some xs \<Rightarrow> xs)"

definition len :: "'a slice \<Rightarrow> nat" where
  "len s = length (elems s)"

definition append_slice :: "'a slice \<Rightarrow> 'a \<Rightarrow> 'a slice" where
  "append_slice s x = Some (elems s @ [x])"

text \<open>
  Error values. \<open>OSError m\<close> is an error of the operating system or of the scanner, with
  its message; \<open>Errorf m\<close> is the value of \<^verbatim>\<open>errors.Errorf\<close> once formatted to \<open>m\<close>;
  \<open>Wrap err m\<close> is \<^verbatim>\<open>errors.Wrap(err, m)\<close> of \<^verbatim>\<open>github.com/pkg/errors\<close>, whose message
  is \<open>m\<close>, a colon and a space, and the message of \<open>err\<close>.
\<close>

datatype go_error = OSError string | Errorf string | Wrap go_error string

fun Error :: "go_error \<Rightarrow> string" where
  "Error (OSError m) = m"
| "Error (Errorf m) = m"
| "Error (Wrap err m) = m @ '': '' @ Error err"

text \<open>A run-time panic of the Go program: indexing a string out of its range.\<close>

datatype runtime_panic = IndexOutOfRange

subsection \<open>Package strings\<close>

text \<open>
  \<^verbatim>\<open>strings.Fields\<close> splits a string around each run of white space, as
  \<^verbatim>\<open>unicode.IsSpace\<close> defines it, and returns the non-empty pieces. The white-space code
  points are U+0009 to U+000D, U+0020, U+0085, U+00A0, U+1680, U+2000 to U+200A, U+2028,
  U+2029, U+202F, U+205F and U+3000. A Go string is a byte sequence that the function
  decodes as UTF-8, an invalid byte counting as one code point that is not white space.
  The model works on the bytes: \<open>space_width s\<close> is the number of bytes of the white-space
  code point whose UTF-8 encoding \<open>s\<close> starts with, and 0 when it starts with none. A
  first byte of an encoding is never a continuation byte, so the decoder always starts a
  code point there, and no byte inside another code point starts one of these encodings.
\<close>

definition asciiSpace :: "char \<Rightarrow> bool" where
  "asciiSpace c \<longleftrightarrow>
     c = CHR 0x09 \<or> c = CHR 0x0A \<or> c = CHR 0x0B \<or> c = CHR 0x0C \<or> c = CHR 0x0D \<or> c = CHR '' ''"

definition space_width :: "string \<Rightarrow> nat" where
  "space_width s =
     (case s of
        [] \<Rightarrow> 0
      | c # cs \<Rightarrow>
          if asciiSpace c then 1
          else if c = CHR 0xC2 then
            (case cs of
               d # _ \<Rightarrow> if d = CHR 0x85 \<or> d = CHR 0xA0 then 2 else 0
             | [] \<Rightarrow> 0)
          else if c = CHR 0xE1 then
            (case cs of
               d # e # _ \<Rightarrow> if d = CHR 0x9A \<and> e = CHR 0x80 then 3 else 0
             | _ \<Rightarrow> 0)
          else if c = CHR 0xE2 then
            (case cs of
               d # e # _ \<Rightarrow>
                 if d = CHR 0x80 \<and>
                    ((128 \<le> (of_char e :: nat) \<and> (of_char e :: nat) \<le> 138) \<or>
                     e = CHR 0xA8 \<or> e = CHR 0xA9 \<or> e = CHR 0xAF)
                 then 3
                 else if d = CHR 0x81 \<and> e = CHR 0x9F then 3 else 0
             | _ \<Rightarrow> 0)
          else if c = CHR 0xE3 then
            (case cs of
               d # e # _ \<Rightarrow> if d = CHR 0x80 \<and> e = CHR 0x80 then 3 else 0
             | _ \<Rightarrow> 0)
          else 0)"

text \<open>
  The scan of \<^verbatim>\<open>strings.Fields\<close>, byte by byte: \<open>skip\<close> counts the bytes still to pass of
  the white-space code point being read, and \<open>field\<close> is the field read so far.
\<close>

fun Fields_from :: "nat \<Rightarrow> string \<Rightarrow> string \<Rightarrow> string list" where
  "Fields_from skip field [] = (if field = [] then [] else [field])"
| "Fields_from skip field (c # cs) =
     (if 0 < skip then Fields_from (skip - 1) field cs
      else if 0 < space_width (c # cs)
      then (if field = [] then Fields_from (space_width (c # cs) - 1) [] cs
            else field # Fields_from (space_width (c # cs) - 1) [] cs)
      else Fields_from 0 (field @ [c]) cs)"

definition Fields :: "string \<Rightarrow> string list" where
  "Fields s = Fields_from 0 [] s"

text \<open>
  \<^verbatim>\<open>strings.ToUpper\<close> upper-cases every Unicode letter by the case tables of package
  \<^verbatim>\<open>unicode\<close> and replaces invalid UTF-8. The validator is modelled for any such function:
  the checker takes it as the parameter \<open>toUpper\<close>. \<open>ToUpper_ascii\<close> is
  \<^verbatim>\<open>strings.ToUpper\<close> on the strings whose bytes are all below 0x80, where it maps the
  letters a to z to A to Z and keeps every other byte; it serves to evaluate the checker
  at such names, and is not \<^verbatim>\<open>strings.ToUpper\<close> on other strings.
\<close>

definition ToUpper_byte :: "char \<Rightarrow> char" where
  "ToUpper_byte c =
     (let n = (of_char c :: nat) in if 97 \<le> n \<and> n \<le> 122 then char_of (n - 32) else c)"

definition ToUpper_ascii :: "string \<Rightarrow> string" where
  "ToUpper_ascii s = map ToUpper_byte s"

text \<open>\<^verbatim>\<open>strings.Join\<close> concatenates the elements with the separator between them.\<close>

fun Join :: "string list \<Rightarrow> string \<Rightarrow> string" where
  "Join [] sep = []"
| "Join [a] sep = a"
| "Join (a # b # rest) sep = a @ sep @ Join (b # rest) sep"

subsection \<open>The status source as the scanner presents it\<close>

text \<open>
  \<^verbatim>\<open>getCgroupSubsystems\<close> sees the file only through \<^verbatim>\<open>os.Open\<close> and the methods
  \<^verbatim>\<open>Scan\<close>, \<^verbatim>\<open>Err\<close> and \<^verbatim>\<open>Text\<close> of a \<^verbatim>\<open>bufio.Scanner\<close> that splits lines. A run of the
  scanner is the sequence of its successful \<^verbatim>\<open>Scan\<close> calls, each with the line \<^verbatim>\<open>Text()\<close>
  returns and the error \<^verbatim>\<open>Err()\<close> returns at that moment, followed by the call of
  \<^verbatim>\<open>Scan\<close> that returns false; \<open>opened scans final\<close> is such a run, where \<open>final\<close> is what
  \<^verbatim>\<open>Err()\<close> would return after the last call. By the contract of the scanner, \<^verbatim>\<open>Scan\<close>
  returns false at the end of the input or at an error, and \<^verbatim>\<open>Err()\<close> then returns the
  first error other than the end of the input: a read that fails when no partial line is
  buffered, or a line longer than the buffer, ends the run with \<open>final = Some err\<close>; a read
  that fails behind a partial line delivers that line with \<open>Err = Some err\<close>.
  \<open>open_fails err\<close> is the file that \<^verbatim>\<open>os.Open\<close> cannot open.
\<close>

record scan =
  Text :: string
  Err :: "go_error option"

datatype source = open_fails go_error | opened "scan list" "go_error option"

text \<open>The run of the scanner over a file that reads without error, given by its lines.\<close>

definition line :: "string \<Rightarrow> scan" where
  "line l = \<lparr>Text = l, Err = None\<rparr>"

definition readable :: "string list \<Rightarrow> source" where
  "readable ls = opened (map line ls) None"

subsection \<open>The reader\<close>

text \<open>
  The loop of \<^verbatim>\<open>getCgroupSubsystems\<close> over the successful scans, with the slice
  \<^verbatim>\<open>subsystems\<close> built so far. \<^verbatim>\<open>text[0]\<close> panics on the empty string. The result of the
  function is the pair it returns, or the panic.
\<close>

fun scan_loop :: "scan list \<Rightarrow> string list \<Rightarrow> runtime_panic + (string slice \<times> go_error option)" where
  "scan_loop [] subsystems = Inr (Some subsystems, None)"
| "scan_loop (s # rest) subsystems =
     (case Err s of
        Some err \<Rightarrow> Inr (None, Some err)
      | None \<Rightarrow>
          (case Text s of
             [] \<Rightarrow> Inl IndexOutOfRange
           | c # _ \<Rightarrow>
               if c \<noteq> CHR ''#'' then
                 (let parts = Fields (Text s) in
                  if length parts \<ge> 4 \<and> parts ! 3 \<noteq> ''0''
                  then scan_loop rest (subsystems @ [parts ! 0])
                  else scan_loop rest subsystems)
               else scan_loop rest subsystems))"

fun getCgroupSubsystems :: "source \<Rightarrow> runtime_panic + (string slice \<times> go_error option)" where
  "getCgroupSubsystems (open_fails err) = Inr (None, Some err)"
| "getCgroupSubsystems (opened scans final) = scan_loop scans []"

subsection \<open>The reader as the specification words it\<close>

text \<open>
  A comment line starts with \<^verbatim>\<open>#\<close>. A line is an enabled record when it is not a comment,
  splits into at least four fields, and its fourth field is not the text \<^verbatim>\<open>0\<close>. The
  enabled names are the first fields of the enabled records, in the order of the lines.
\<close>

definition comment_line :: "string \<Rightarrow> bool" where
  "comment_line l \<longleftrightarrow> (case l of [] \<Rightarrow> False | c # _ \<Rightarrow> c = CHR ''#'')"

definition enabled_record :: "string \<Rightarrow> bool" where
  "enabled_record l \<longleftrightarrow> \<not> comment_line l \<and> length (Fields l) \<ge> 4 \<and> Fields l ! 3 \<noteq> ''0''"

definition enabled_names :: "string list \<Rightarrow> string list" where
  "enabled_names ls = map (\<lambda>l. Fields l ! 0) (filter enabled_record ls)"

subsection \<open>The reporter and the specification\<close>

text \<open>
  Modelled from the spec: the interface \<^verbatim>\<open>Reporter\<close> and the severities \<^verbatim>\<open>good\<close>,
  \<^verbatim>\<open>bad\<close> and \<^verbatim>\<open>warn\<close> are declared outside the validator's file. The reporter has
  the one operation \<^verbatim>\<open>Report(itemKey, message, severity)\<close>; it is modelled as the sink
  that records each call, in order, and the validator never reads it back.
\<close>

datatype ValidationResultType = good | bad | warn

record ReportEvent =
  itemKey :: string
  status :: string
  severity :: ValidationResultType

definition Report :: "ReportEvent list \<Rightarrow> string \<Rightarrow> string \<Rightarrow> ValidationResultType \<Rightarrow> ReportEvent list" where
  "Report reporter item msg result = reporter @ [\<lparr>itemKey = item, status = msg, severity = result\<rparr>]"

text \<open>
  Modelled from the spec: the type \<^verbatim>\<open>SysSpec\<close> is declared outside the validator's file.
  Of the specification, \<^verbatim>\<open>Validate\<close> reads the two lists of names
  \<^verbatim>\<open>spec.CgroupSpec.Required\<close> and \<^verbatim>\<open>spec.CgroupSpec.Optional\<close>.
\<close>

record CgroupSpec =
  Required :: "string list"
  Optional :: "string list"

record SysSpec =
  CgroupSpec :: CgroupSpec

subsection \<open>The checker\<close>

definition Name :: string where
  "Name = ''cgroups''"

definition cgroupsConfigPrefix :: string where
  "cgroupsConfigPrefix = ''CGROUPS_''"

text \<open>The inner loop of \<^verbatim>\<open>validateCgroupSubsystems\<close>: the value of \<^verbatim>\<open>found\<close> after it.\<close>

fun found_in :: "string \<Rightarrow> string list \<Rightarrow> bool" where
  "found_in cgroup [] = False"
| "found_in cgroup (subsystem # rest) = (if cgroup = subsystem then True else found_in cgroup rest)"

text \<open>
  The outer loop, with the reporter and the slice \<^verbatim>\<open>missing\<close> as they stand; the function
  starts it with the nil slice and returns the reporter with the slice. \<open>toUpper\<close> is
  \<^verbatim>\<open>strings.ToUpper\<close>.
\<close>

fun validate_loop ::
  "(string \<Rightarrow> string) \<Rightarrow> string list \<Rightarrow> string list \<Rightarrow> bool \<Rightarrow> ReportEvent list \<Rightarrow> string slice
     \<Rightarrow> ReportEvent list \<times> string slice" where
  "validate_loop toUpper [] subsystems required reporter missing = (reporter, missing)"
| "validate_loop toUpper (cgroup # cgroups) subsystems required reporter missing =
     (let found = found_in cgroup subsystems;
          item = cgroupsConfigPrefix @ toUpper cgroup
      in if found then
           validate_loop toUpper cgroups subsystems required
             (Report reporter item ''enabled'' good) missing
         else if required then
           validate_loop toUpper cgroups subsystems required
             (Report reporter item ''missing'' bad) (append_slice missing cgroup)
         else
           validate_loop toUpper cgroups subsystems required
             (Report reporter item ''missing'' warn) (append_slice missing cgroup))"

definition validateCgroupSubsystems ::
  "(string \<Rightarrow> string) \<Rightarrow> string list \<Rightarrow> string list \<Rightarrow> bool \<Rightarrow> ReportEvent list
     \<Rightarrow> ReportEvent list \<times> string slice" where
  "validateCgroupSubsystems toUpper cgroups subsystems required reporter =
     validate_loop toUpper cgroups subsystems required reporter None"

text \<open>
  \<^verbatim>\<open>Validate\<close> returns the reporter after the call with the pair \<open>(warns, errs)\<close>, or
  the panic of the reader. Both results start as the nil slice.
\<close>

definition Validate ::
  "(string \<Rightarrow> string) \<Rightarrow> source \<Rightarrow> ReportEvent list \<Rightarrow> SysSpec
     \<Rightarrow> runtime_panic + (ReportEvent list \<times> go_error slice \<times> go_error slice)" where
  "Validate toUpper src reporter spec =
     (case getCgroupSubsystems src of
        Inl p \<Rightarrow> Inl p
      | Inr (subsystems, Some err) \<Rightarrow>
          Inr (reporter, None, Some [Wrap err ''failed to get cgroup subsystems''])
      | Inr (subsystems, None) \<Rightarrow>
          (let (reporter1, missingRequired) =
                 validateCgroupSubsystems toUpper (Required (CgroupSpec spec)) (elems subsystems)
                   True reporter;
               errs = (if len missingRequired \<noteq> 0
                       then Some [Errorf (''missing required cgroups: '' @ Join (elems missingRequired) '' '')]
                       else None);
               (reporter2, missingOptional) =
                 validateCgroupSubsystems toUpper (Optional (CgroupSpec spec)) (elems subsystems)
                   False reporter1;
               warns = (if len missingOptional \<noteq> 0
                        then Some [Errorf (''missing optional cgroups: '' @ Join (elems missingOptional) '' '')]
                        else None)
           in Inr (reporter2, warns, errs)))"

subsection \<open>The checker as the specification words it\<close>

text \<open>
  The event of a declared name: the key is the prefix and the upper-cased name; a name in
  the enabled set is reported enabled with severity good, an absent one missing, with
  severity bad in the required pass and warn in the optional pass. The missing names of a
  pass are the declared names absent from the enabled set, in declaration order.
\<close>

definition report_for :: "(string \<Rightarrow> string) \<Rightarrow> string list \<Rightarrow> bool \<Rightarrow> string \<Rightarrow> ReportEvent" where
  "report_for toUpper subsystems required name =
     \<lparr>itemKey = ''CGROUPS_'' @ toUpper name,
      status = (if name \<in> set subsystems then ''enabled'' else ''missing''),
      severity = (if name \<in> set subsystems then good else if required then bad else warn)\<rparr>"

definition missing_names :: "string list \<Rightarrow> string list \<Rightarrow> string list" where
  "missing_names subsystems cgroups = filter (\<lambda>name. name \<notin> set subsystems) cgroups"

section \<open>Properties\<close>

subsection \<open>Slices and strings\<close>

lemma elems_None: "elems None = []"
  by (simp add: elems_def)

lemma elems_Some: "elems (Some xs) = xs"
  by (simp add: elems_def)

lemma Fields_from_spaces: "\<forall>c\<in>set s. asciiSpace c \<Longrightarrow> Fields_from 0 [] s = []"
  by (induction s) (auto simp: space_width_def)

lemma Fields_spaces: "\<forall>c\<in>set s. asciiSpace c \<Longrightarrow> Fields s = []"
  by (simp add: Fields_def Fields_from_spaces)

text \<open>
  Fields around spaces, a tab and the no-break space U+00A0; the zero-width space U+200B
  is not white space and stays in its field.
\<close>

lemma Fields_examples:
  "Fields ''cpu 1 1 1'' = [''cpu'', ''1'', ''1'', ''1'']"
  "Fields (''cpu'' @ [CHR 0x09] @ ''1  1'' @ [CHR 0xC2, CHR 0xA0] @ ''1 '') =
     [''cpu'', ''1'', ''1'', ''1'']"
  "Fields (''a'' @ [CHR 0xE2, CHR 0x80, CHR 0x8B] @ ''b'' @ [CHR 0xE2, CHR 0x80, CHR 0x8A] @ ''c'') =
     [''a'' @ [CHR 0xE2, CHR 0x80, CHR 0x8B] @ ''b'', ''c'']"
  by (simp_all add: Fields_def space_width_def asciiSpace_def)

lemmas evaluation =
  readable_def line_def Fields_def space_width_def asciiSpace_def ToUpper_ascii_def ToUpper_byte_def char_of_def
  bit_iff_odd Validate_def validateCgroupSubsystems_def Report_def cgroupsConfigPrefix_def
  elems_def len_def append_slice_def Let_def

subsection \<open>The reader\<close>

text \<open>
  The loop returns a list exactly when every scan is free of a read error and of an empty
  line, and the list is then what it held at the start followed by the enabled names.
\<close>

lemma scan_loop_returns_iff:
  "scan_loop scans acc = Inr (Some subsystems, None) \<longleftrightarrow>
     (\<forall>s\<in>set scans. Err s = None \<and> Text s \<noteq> []) \<and>
     subsystems = acc @ enabled_names (map Text scans)"
proof (induction scans arbitrary: acc)
  case Nil
  show ?case by (auto simp: enabled_names_def)
next
  case (Cons s rest)
  show ?case
  proof (cases "Err s")
    case (Some err)
    then show ?thesis by auto
  next
    case None
    show ?thesis
    proof (cases "Text s")
      case Nil
      with None show ?thesis by auto
    next
      case (Cons c cs)
      with None Cons.IH show ?thesis
        by (auto simp: enabled_names_def enabled_record_def comment_line_def Let_def)
    qed
  qed
qed

lemma set_enabled_names:
  "set (enabled_names ls) =
     {Fields l ! 0 |l. l \<in> set ls \<and> \<not> comment_line l \<and> 4 \<le> length (Fields l) \<and>
        Fields l ! 3 \<noteq> ''0''}"
  by (auto simp: enabled_names_def enabled_record_def)

text \<open>A line of white space only is not an enabled record, and the loop passes over it.\<close>

lemma whitespace_line_skipped:
  assumes "l \<noteq> []" and "\<forall>c\<in>set l. asciiSpace c"
  shows "scan_loop (line l # rest) acc = scan_loop rest acc"
proof -
  obtain c cs where l: "l = c # cs"
    using assms(1) by (cases l) auto
  have "Fields l = []"
    using assms(2) by (rule Fields_spaces)
  then show ?thesis
    by (simp add: line_def l)
qed

text \<open>The two error returns of the reader: the open that fails, and the scan with an error.\<close>

lemma getCgroupSubsystems_open_fails:
  "getCgroupSubsystems (open_fails err) = Inr (None, Some err)"
  by simp

lemma scan_loop_scan_error:
  assumes "\<forall>s\<in>set before. Err s = None \<and> Text s \<noteq> []"
  shows "scan_loop (before @ \<lparr>Text = t, Err = Some err\<rparr> # rest) acc = Inr (None, Some err)"
  using assms
proof (induction before arbitrary: acc)
  case Nil
  show ?case by simp
next
  case (Cons s before)
  then obtain c cs where "Text s = c # cs" and "Err s = None"
    by (cases "Text s") auto
  with Cons show ?case
    by (simp add: Let_def)
qed

subsection \<open>The checker\<close>

lemma found_in_iff: "found_in cgroup subsystems \<longleftrightarrow> cgroup \<in> set subsystems"
  by (induction subsystems) auto

lemma validate_loop_eq:
  "validate_loop toUpper cgroups subsystems required reporter missing =
     (reporter @ map (report_for toUpper subsystems required) cgroups,
      if missing_names subsystems cgroups = [] then missing
      else Some (elems missing @ missing_names subsystems cgroups))"
proof (induction cgroups arbitrary: reporter missing required)
  case Nil
  show ?case by (simp add: missing_names_def)
next
  case (Cons cgroup cgroups)
  show ?case
  proof (cases "cgroup \<in> set subsystems")
    case True
    then show ?thesis
      by (simp add: Cons.IH found_in_iff Report_def report_for_def missing_names_def
          cgroupsConfigPrefix_def)
  next
    case False
    then show ?thesis
      by (simp add: Cons.IH found_in_iff Report_def report_for_def missing_names_def
          cgroupsConfigPrefix_def append_slice_def elems_Some)
  qed
qed

lemma validateCgroupSubsystems_eq:
  "validateCgroupSubsystems toUpper cgroups subsystems required reporter =
     (reporter @ map (report_for toUpper subsystems required) cgroups,
      if missing_names subsystems cgroups = [] then None
      else Some (missing_names subsystems cgroups))"
  by (simp add: validateCgroupSubsystems_def validate_loop_eq elems_None)

lemma Validate_read_ok:
  assumes "getCgroupSubsystems src = Inr (subsystems, None)"
  shows "Validate toUpper src reporter spec =
     Inr (reporter @ map (report_for toUpper (elems subsystems) True) (Required (CgroupSpec spec))
                   @ map (report_for toUpper (elems subsystems) False) (Optional (CgroupSpec spec)),
          (if missing_names (elems subsystems) (Optional (CgroupSpec spec)) = [] then None
           else Some [Errorf (''missing optional cgroups: '' @
                  Join (missing_names (elems subsystems) (Optional (CgroupSpec spec))) '' '')]),
          (if missing_names (elems subsystems) (Required (CgroupSpec spec)) = [] then None
           else Some [Errorf (''missing required cgroups: '' @
                  Join (missing_names (elems subsystems) (Required (CgroupSpec spec))) '' '')]))"
  using assms
  by (simp add: Validate_def validateCgroupSubsystems_eq len_def elems_None elems_Some)

lemma Validate_read_error:
  assumes "getCgroupSubsystems src = Inr (subsystems, Some err)"
  shows "Validate toUpper src reporter spec =
     Inr (reporter, None, Some [Wrap err ''failed to get cgroup subsystems''])"
  using assms by (simp add: Validate_def)

lemma Validate_read_panic:
  assumes "getCgroupSubsystems src = Inl p"
  shows "Validate toUpper src reporter spec = Inl p"
  using assms by (simp add: Validate_def)

text \<open>
  Scenario A of the specification: the status file of four lines against a specification
  with two required and two optional names.
\<close>

lemma scenario_A:
  "Validate ToUpper_ascii
     (readable [''#subsys_name hierarchy num_cgroups enabled'', ''cpu 1 1 1'', ''memory 2 1 0'',
                ''pids 3 1 1''])
     [] \<lparr>CgroupSpec = \<lparr>Required = [''cpu'', ''memory''], Optional = [''pids'', ''blkio'']\<rparr>\<rparr> =
   Inr ([\<lparr>itemKey = ''CGROUPS_CPU'', status = ''enabled'', severity = good\<rparr>,
         \<lparr>itemKey = ''CGROUPS_MEMORY'', status = ''missing'', severity = bad\<rparr>,
         \<lparr>itemKey = ''CGROUPS_PIDS'', status = ''enabled'', severity = good\<rparr>,
         \<lparr>itemKey = ''CGROUPS_BLKIO'', status = ''missing'', severity = warn\<rparr>],
        Some [Errorf ''missing optional cgroups: blkio''],
        Some [Errorf ''missing required cgroups: memory''])"
  by (simp add: evaluation)

subsection \<open>Claims about the reader\<close>

text \<open>
  When the reader returns a list for a run of the scanner, the list holds exactly the first
  fields of the lines that are not comments, split into at least four fields and have a
  fourth field other than the text \<^verbatim>\<open>0\<close>, in the order of the lines. It returns a list
  exactly when no scan carries a read error and no line is empty.
\<close>

lemma reader_returns_enabled_names:
  "(getCgroupSubsystems (opened scans final) = Inr (Some subsystems, None) \<longleftrightarrow>
      (\<forall>s\<in>set scans. Err s = None \<and> Text s \<noteq> []) \<and>
      subsystems = enabled_names (map Text scans)) \<and>
   set (enabled_names (map Text scans)) =
     {Fields l ! 0 |l. l \<in> Text ` set scans \<and> \<not> comment_line l \<and> 4 \<le> length (Fields l) \<and>
        Fields l ! 3 \<noteq> ''0''}"
  using scan_loop_returns_iff [of scans "[]" subsystems] set_enabled_names [of "map Text scans"]
  by simp

text \<open>
  The fourth field is compared as text, so \<^verbatim>\<open>00\<close> is enabled; a field may end at a tab or
  at a no-break space.
\<close>

lemma reader_example:
  "getCgroupSubsystems (readable [''#subsys_name hierarchy num_cgroups enabled'', ''cpu 1 1 1'',
        ''memory 2 1 0'', ''pids 3 1 1'', ''hugetlb 4 1 00'', ''net_cls 5 1'', ''  '',
        ''rdma'' @ [CHR 0x09] @ ''6 1'' @ [CHR 0xC2, CHR 0xA0] @ ''1'']) =
     Inr (Some [''cpu'', ''pids'', ''hugetlb'', ''rdma''], None)"
  by (simp add: readable_def line_def Fields_def space_width_def asciiSpace_def)

text \<open>
  C1. For every content of the status source the reader is to return exactly the first
  fields of the lines that are not comments, have at least four fields and a fourth field
  other than the text \<^verbatim>\<open>0\<close>, and a line with fewer than four fields is to add nothing.
  The content below has the enabled records \<^verbatim>\<open>cpu\<close> and \<^verbatim>\<open>pids\<close> and an empty line
  between them; its enabled names are \<^verbatim>\<open>cpu\<close> and \<^verbatim>\<open>pids\<close>, and the reader returns no
  list: it panics at the empty line.
\<close>

theorem getCgroupSubsystems_misses_enabled_names:
  "enabled_names [''#subsys_name hierarchy num_cgroups enabled'', ''cpu 1 1 1'', '''',
      ''pids 3 1 1''] = [''cpu'', ''pids''] \<and>
   getCgroupSubsystems (readable [''#subsys_name hierarchy num_cgroups enabled'', ''cpu 1 1 1'',
      '''', ''pids 3 1 1'']) = Inl IndexOutOfRange"
  by (simp add: enabled_names_def enabled_record_def comment_line_def readable_def line_def
      Fields_def space_width_def asciiSpace_def)

text \<open>
  C5. The reader is to fail with an error whenever the status file cannot be opened or a
  read error occurs during the scan. Here the scanner delivers one line and then stops at
  a read error: \<^verbatim>\<open>Scan\<close> returns false and \<^verbatim>\<open>Err()\<close> holds the error. The reader returns
  the names read so far and no error, and \<^verbatim>\<open>Validate\<close> reports \<^verbatim>\<open>memory\<close> missing instead
  of the read failure.
\<close>

theorem getCgroupSubsystems_drops_final_error:
  "getCgroupSubsystems
     (opened [line ''cpu 1 1 1''] (Some (OSError ''read /proc/cgroups: input/output error''))) =
     Inr (Some [''cpu''], None) \<and>
   Validate ToUpper_ascii
     (opened [line ''cpu 1 1 1''] (Some (OSError ''read /proc/cgroups: input/output error'')))
     [] \<lparr>CgroupSpec = \<lparr>Required = [''cpu'', ''memory''], Optional = []\<rparr>\<rparr> =
     Inr ([\<lparr>itemKey = ''CGROUPS_CPU'', status = ''enabled'', severity = good\<rparr>,
           \<lparr>itemKey = ''CGROUPS_MEMORY'', status = ''missing'', severity = bad\<rparr>],
          None,
          Some [Errorf ''missing required cgroups: memory''])"
  by (simp add: evaluation)

text \<open>
  C6. The reader is to pass over an empty line as it passes over a line of white space.
  On a status source with an empty line the reader indexes the first byte of the empty
  string and panics, and so does \<^verbatim>\<open>Validate\<close>.
\<close>

theorem getCgroupSubsystems_empty_line_panics:
  "getCgroupSubsystems (readable [''cpu 1 1 1'', '''', ''pids 3 1 1'']) = Inl IndexOutOfRange \<and>
   Validate ToUpper_ascii (readable [''cpu 1 1 1'', '''', ''pids 3 1 1'']) []
     \<lparr>CgroupSpec = \<lparr>Required = [''cpu''], Optional = [''pids'']\<rparr>\<rparr> = Inl IndexOutOfRange"
  by (simp add: evaluation)

subsection \<open>Claims about the checker\<close>

text \<open>
  C2. When the reader has returned the enabled names, \<^verbatim>\<open>Validate\<close> returns, for the
  required names, the nil slice if none is missing and otherwise exactly one error whose
  message is \<^verbatim>\<open>missing required cgroups: \<close> followed by the missing required names in the
  order of \<^verbatim>\<open>spec.Required\<close>, joined by single spaces; and likewise one warning
  \<^verbatim>\<open>missing optional cgroups: ...\<close> for the optional names.
\<close>

theorem Validate_aggregates_missing:
  assumes "getCgroupSubsystems src = Inr (subsystems, None)"
  shows "\<exists>reporter' warns errs.
     Validate toUpper src reporter spec = Inr (reporter', warns, errs) \<and>
     (if filter (\<lambda>name. name \<notin> set (elems subsystems)) (Required (CgroupSpec spec)) = []
      then errs = None
      else \<exists>e. errs = Some [e] \<and>
             Error e = ''missing required cgroups: '' @
               Join (filter (\<lambda>name. name \<notin> set (elems subsystems)) (Required (CgroupSpec spec)))
                 '' '') \<and>
     (if filter (\<lambda>name. name \<notin> set (elems subsystems)) (Optional (CgroupSpec spec)) = []
      then warns = None
      else \<exists>e. warns = Some [e] \<and>
             Error e = ''missing optional cgroups: '' @
               Join (filter (\<lambda>name. name \<notin> set (elems subsystems)) (Optional (CgroupSpec spec)))
                 '' '')"
  unfolding Validate_read_ok [OF assms] missing_names_def
  by simp

theorem Validate_aggregates_missing_witness:
  "getCgroupSubsystems (readable [''cpu 1 1 1'', ''memory 2 1 0'', ''pids 3 1 1'']) =
     Inr (Some [''cpu'', ''pids''], None) \<and>
   (\<exists>reporter' e.
      Validate ToUpper_ascii (readable [''cpu 1 1 1'', ''memory 2 1 0'', ''pids 3 1 1'']) []
        \<lparr>CgroupSpec = \<lparr>Required = [''rdma'', ''cpu'', ''memory'', ''blkio''],
                        Optional = [''pids'']\<rparr>\<rparr> =
        Inr (reporter', None, Some [e]) \<and>
      Error e = ''missing required cgroups: rdma memory blkio'')"
proof -
  have read: "getCgroupSubsystems (readable [''cpu 1 1 1'', ''memory 2 1 0'', ''pids 3 1 1'']) =
      Inr (Some [''cpu'', ''pids''], None)"
    by (simp add: readable_def line_def Fields_def space_width_def asciiSpace_def)
  show ?thesis
    using read Validate_aggregates_missing [where toUpper = ToUpper_ascii and reporter = "[]"
        and spec = "\<lparr>CgroupSpec = \<lparr>Required = [''rdma'', ''cpu'', ''memory'', ''blkio''],
                        Optional = [''pids'']\<rparr>\<rparr>", OF read]
    by (auto simp: elems_Some)
qed

text \<open>
  C3. \<^verbatim>\<open>validateCgroupSubsystems\<close> emits exactly one event for each declared name, in
  order, with the key \<^verbatim>\<open>CGROUPS_\<close> followed by the name as \<^verbatim>\<open>strings.ToUpper\<close> upper-cases
  it: enabled with severity good for a name in the enabled set, missing with severity bad
  for an absent required name and missing with severity warn for an absent optional name;
  the absent names, and only they, are appended to the missing list, which stays nil when
  there is none.
\<close>

theorem validateCgroupSubsystems_reports:
  "validateCgroupSubsystems toUpper cgroups subsystems required reporter =
     (reporter @
        map (\<lambda>name. \<lparr>itemKey = ''CGROUPS_'' @ toUpper name,
                      status = (if name \<in> set subsystems then ''enabled'' else ''missing''),
                      severity = (if name \<in> set subsystems then good
                                  else if required then bad else warn)\<rparr>) cgroups,
      if \<forall>name\<in>set cgroups. name \<in> set subsystems then None
      else Some (filter (\<lambda>name. name \<notin> set subsystems) cgroups))"
proof -
  have "missing_names subsystems cgroups = [] \<longleftrightarrow> (\<forall>name\<in>set cgroups. name \<in> set subsystems)"
    by (auto simp: missing_names_def filter_empty_conv)
  then show ?thesis
    unfolding validateCgroupSubsystems_eq
    by (simp add: report_for_def [abs_def] missing_names_def)
qed

theorem validateCgroupSubsystems_reports_witness:
  "validateCgroupSubsystems ToUpper_ascii [''cpu'', ''memory''] [''cpu'', ''pids''] True [] =
     ([\<lparr>itemKey = ''CGROUPS_CPU'', status = ''enabled'', severity = good\<rparr>,
       \<lparr>itemKey = ''CGROUPS_MEMORY'', status = ''missing'', severity = bad\<rparr>],
      Some [''memory'']) \<and>
   validateCgroupSubsystems ToUpper_ascii [''pids'', ''blkio'', ''rdma''] [''cpu'', ''pids''] False [] =
     ([\<lparr>itemKey = ''CGROUPS_PIDS'', status = ''enabled'', severity = good\<rparr>,
       \<lparr>itemKey = ''CGROUPS_BLKIO'', status = ''missing'', severity = warn\<rparr>,
       \<lparr>itemKey = ''CGROUPS_RDMA'', status = ''missing'', severity = warn\<rparr>],
      Some [''blkio'', ''rdma'']) \<and>
   validateCgroupSubsystems ToUpper_ascii [''cpu''] [''cpu'', ''pids''] True [] =
     ([\<lparr>itemKey = ''CGROUPS_CPU'', status = ''enabled'', severity = good\<rparr>], None)"
  using validateCgroupSubsystems_reports [where toUpper = ToUpper_ascii
      and cgroups = "[''cpu'', ''memory'']" and subsystems = "[''cpu'', ''pids'']"
      and required = True and reporter = "[]"]
    validateCgroupSubsystems_reports [where toUpper = ToUpper_ascii
      and cgroups = "[''pids'', ''blkio'', ''rdma'']" and subsystems = "[''cpu'', ''pids'']"
      and required = False and reporter = "[]"]
    validateCgroupSubsystems_reports [where toUpper = ToUpper_ascii
      and cgroups = "[''cpu'']" and subsystems = "[''cpu'', ''pids'']"
      and required = True and reporter = "[]"]
  by (simp add: ToUpper_ascii_def ToUpper_byte_def char_of_def bit_iff_odd)

text \<open>
  C4. When the reader fails, \<^verbatim>\<open>Validate\<close> returns at once: the warnings are nil, the
  errors hold the single error that wraps the read failure, with the message
  \<^verbatim>\<open>failed to get cgroup subsystems: \<close> before the message of the failure, and the
  reporter has received no event.
\<close>

theorem Validate_reader_fails:
  assumes "getCgroupSubsystems src = Inr (subsystems, Some err)"
  shows "Validate toUpper src reporter spec =
           Inr (reporter, None, Some [Wrap err ''failed to get cgroup subsystems'']) \<and>
         Error (Wrap err ''failed to get cgroup subsystems'') =
           ''failed to get cgroup subsystems: '' @ Error err"
  using Validate_read_error [OF assms] by simp

theorem Validate_reader_fails_witness:
  "getCgroupSubsystems (open_fails (OSError ''open /proc/cgroups: no such file or directory'')) =
     Inr (None, Some (OSError ''open /proc/cgroups: no such file or directory'')) \<and>
   Validate ToUpper_ascii (open_fails (OSError ''open /proc/cgroups: no such file or directory'')) []
     \<lparr>CgroupSpec = \<lparr>Required = [''cpu'', ''memory''], Optional = [''pids'']\<rparr>\<rparr> =
     Inr ([], None,
          Some [Wrap (OSError ''open /proc/cgroups: no such file or directory'')
                  ''failed to get cgroup subsystems'']) \<and>
   Error (Wrap (OSError ''open /proc/cgroups: no such file or directory'')
            ''failed to get cgroup subsystems'') =
     ''failed to get cgroup subsystems: open /proc/cgroups: no such file or directory''"
proof -
  have fails: "getCgroupSubsystems
      (open_fails (OSError ''open /proc/cgroups: no such file or directory'')) =
      Inr (None, Some (OSError ''open /proc/cgroups: no such file or directory''))"
    by simp
  show ?thesis
    using fails Validate_reader_fails [where toUpper = ToUpper_ascii and reporter = "[]"
        and spec = "\<lparr>CgroupSpec = \<lparr>Required = [''cpu'', ''memory''], Optional = [''pids'']\<rparr>\<rparr>",
        OF fails]
    by simp
qed

text \<open>
  C7, as the code has it. A name listed in both \<^verbatim>\<open>Required\<close> and \<^verbatim>\<open>Optional\<close> and absent
  from the enabled set produces two events and is in both missing lists.
\<close>

theorem Validate_name_declared_twice:
  "validateCgroupSubsystems ToUpper_ascii [''memory''] [''cpu''] True [] =
     ([\<lparr>itemKey = ''CGROUPS_MEMORY'', status = ''missing'', severity = bad\<rparr>],
      Some [''memory'']) \<and>
   validateCgroupSubsystems ToUpper_ascii [''memory''] [''cpu'']
     False [\<lparr>itemKey = ''CGROUPS_MEMORY'', status = ''missing'', severity = bad\<rparr>] =
     ([\<lparr>itemKey = ''CGROUPS_MEMORY'', status = ''missing'', severity = bad\<rparr>,
       \<lparr>itemKey = ''CGROUPS_MEMORY'', status = ''missing'', severity = warn\<rparr>],
      Some [''memory'']) \<and>
   Validate ToUpper_ascii (readable [''cpu 1 1 1'']) []
     \<lparr>CgroupSpec = \<lparr>Required = [''memory''], Optional = [''memory'']\<rparr>\<rparr> =
     Inr ([\<lparr>itemKey = ''CGROUPS_MEMORY'', status = ''missing'', severity = bad\<rparr>,
           \<lparr>itemKey = ''CGROUPS_MEMORY'', status = ''missing'', severity = warn\<rparr>],
          Some [Errorf ''missing optional cgroups: memory''],
          Some [Errorf ''missing required cgroups: memory''])"
  by (simp add: evaluation)

text \<open>
  C7, amended. When the reader has returned the enabled names, \<^verbatim>\<open>Validate\<close> emits exactly
  one event for each entry of \<^verbatim>\<open>Required\<close> and then of \<^verbatim>\<open>Optional\<close>, in order. A declared
  name in the enabled set is in neither missing list; a declared name absent from it is in
  the required missing list exactly when \<^verbatim>\<open>Required\<close> declares it and in the optional one
  exactly when \<^verbatim>\<open>Optional\<close> declares it. When no name is declared twice, every declared name
  has exactly one entry, hence one event, and falls into exactly one of the classes
  present, missing required, missing optional.
\<close>

theorem Validate_classifies_each_entry:
  assumes "getCgroupSubsystems src = Inr (subsystems, None)"
    and "validateCgroupSubsystems toUpper (Required (CgroupSpec spec)) (elems subsystems) True reporter =
           (reporter1, missingRequired)"
    and "validateCgroupSubsystems toUpper (Optional (CgroupSpec spec)) (elems subsystems) False reporter1 =
           (reporter2, missingOptional)"
  shows "(\<exists>warns errs. Validate toUpper src reporter spec = Inr (reporter2, warns, errs)) \<and>
     reporter2 =
       reporter @ map (report_for toUpper (elems subsystems) True) (Required (CgroupSpec spec)) @
                  map (report_for toUpper (elems subsystems) False) (Optional (CgroupSpec spec)) \<and>
     (\<forall>name\<in>set (Required (CgroupSpec spec)) \<union> set (Optional (CgroupSpec spec)).
        if name \<in> set (elems subsystems)
        then name \<notin> set (elems missingRequired) \<and> name \<notin> set (elems missingOptional)
        else (name \<in> set (elems missingRequired) \<longleftrightarrow> name \<in> set (Required (CgroupSpec spec))) \<and>
             (name \<in> set (elems missingOptional) \<longleftrightarrow> name \<in> set (Optional (CgroupSpec spec)))) \<and>
     (\<forall>name\<in>set (elems subsystems).
        name \<notin> set (elems missingRequired) \<and> name \<notin> set (elems missingOptional)) \<and>
     (distinct (Required (CgroupSpec spec) @ Optional (CgroupSpec spec)) \<longrightarrow>
        (\<forall>name\<in>set (Required (CgroupSpec spec)) \<union> set (Optional (CgroupSpec spec)).
           (\<exists>!i. i < length (Required (CgroupSpec spec) @ Optional (CgroupSpec spec)) \<and>
                  (Required (CgroupSpec spec) @ Optional (CgroupSpec spec)) ! i = name) \<and>
           (name \<in> set (elems subsystems) \<and> name \<notin> set (elems missingRequired) \<and>
              name \<notin> set (elems missingOptional) \<or>
            name \<notin> set (elems subsystems) \<and> name \<in> set (elems missingRequired) \<and>
              name \<notin> set (elems missingOptional) \<or>
            name \<notin> set (elems subsystems) \<and> name \<notin> set (elems missingRequired) \<and>
              name \<in> set (elems missingOptional))))"
proof -
  let ?req = "Required (CgroupSpec spec)" and ?opt = "Optional (CgroupSpec spec)"
  let ?subs = "elems subsystems"
  have first: "(reporter1, missingRequired) =
      (reporter @ map (report_for toUpper ?subs True) ?req,
       if missing_names ?subs ?req = [] then None else Some (missing_names ?subs ?req))"
    using assms(2) by (simp only: validateCgroupSubsystems_eq)
  have r1: "reporter1 = reporter @ map (report_for toUpper ?subs True) ?req"
    using first by simp
  have mr: "elems missingRequired = missing_names ?subs ?req"
    using first by (simp add: elems_None elems_Some)
  have second: "(reporter2, missingOptional) =
      (reporter1 @ map (report_for toUpper ?subs False) ?opt,
       if missing_names ?subs ?opt = [] then None else Some (missing_names ?subs ?opt))"
    using assms(3) by (simp only: validateCgroupSubsystems_eq)
  have r2: "reporter2 = reporter1 @ map (report_for toUpper ?subs False) ?opt"
    using second by simp
  have mo: "elems missingOptional = missing_names ?subs ?opt"
    using second by (simp add: elems_None elems_Some)
  have log: "reporter2 =
      reporter @ map (report_for toUpper ?subs True) ?req @ map (report_for toUpper ?subs False) ?opt"
    by (simp add: r1 r2)
  have run: "\<exists>warns errs. Validate toUpper src reporter spec = Inr (reporter2, warns, errs)"
    by (simp add: Validate_read_ok [OF assms(1)] log)
  have in_mr: "name \<in> set (elems missingRequired) \<longleftrightarrow> name \<in> set ?req \<and> name \<notin> set ?subs"
    for name
    by (simp add: mr missing_names_def)
  have in_mo: "name \<in> set (elems missingOptional) \<longleftrightarrow> name \<in> set ?opt \<and> name \<notin> set ?subs"
    for name
    by (simp add: mo missing_names_def)
  have classes: "\<forall>name\<in>set ?req \<union> set ?opt.
      if name \<in> set ?subs
      then name \<notin> set (elems missingRequired) \<and> name \<notin> set (elems missingOptional)
      else (name \<in> set (elems missingRequired) \<longleftrightarrow> name \<in> set ?req) \<and>
           (name \<in> set (elems missingOptional) \<longleftrightarrow> name \<in> set ?opt)"
    by (simp add: in_mr in_mo)
  have present: "\<forall>name\<in>set ?subs.
      name \<notin> set (elems missingRequired) \<and> name \<notin> set (elems missingOptional)"
    by (simp add: in_mr in_mo)
  have single: "distinct (?req @ ?opt) \<longrightarrow>
      (\<forall>name\<in>set ?req \<union> set ?opt.
         (\<exists>!i. i < length (?req @ ?opt) \<and> (?req @ ?opt) ! i = name) \<and>
         (name \<in> set ?subs \<and> name \<notin> set (elems missingRequired) \<and>
            name \<notin> set (elems missingOptional) \<or>
          name \<notin> set ?subs \<and> name \<in> set (elems missingRequired) \<and>
            name \<notin> set (elems missingOptional) \<or>
          name \<notin> set ?subs \<and> name \<notin> set (elems missingRequired) \<and>
            name \<in> set (elems missingOptional)))"
  proof (intro impI ballI conjI)
    fix name
    assume d: "distinct (?req @ ?opt)" and n: "name \<in> set ?req \<union> set ?opt"
    have "name \<in> set (?req @ ?opt)"
      using n by simp
    from distinct_Ex1 [OF d this]
    show "\<exists>!i. i < length (?req @ ?opt) \<and> (?req @ ?opt) ! i = name" .
    have "set ?req \<inter> set ?opt = {}"
      using d by simp
    then have "name \<notin> set ?req \<or> name \<notin> set ?opt"
      by blast
    then show "name \<in> set ?subs \<and> name \<notin> set (elems missingRequired) \<and>
            name \<notin> set (elems missingOptional) \<or>
          name \<notin> set ?subs \<and> name \<in> set (elems missingRequired) \<and>
            name \<notin> set (elems missingOptional) \<or>
          name \<notin> set ?subs \<and> name \<notin> set (elems missingRequired) \<and>
            name \<in> set (elems missingOptional)"
      using n unfolding in_mr in_mo by blast
  qed
  from run log classes present single show ?thesis
    by (intro conjI)
qed

theorem Validate_classifies_each_entry_witness:
  "getCgroupSubsystems (readable [''cpu 1 1 1'', ''memory 2 1 0'', ''pids 3 1 1'']) =
     Inr (Some [''cpu'', ''pids''], None) \<and>
   validateCgroupSubsystems ToUpper_ascii [''cpu'', ''memory''] [''cpu'', ''pids''] True [] =
     ([\<lparr>itemKey = ''CGROUPS_CPU'', status = ''enabled'', severity = good\<rparr>,
       \<lparr>itemKey = ''CGROUPS_MEMORY'', status = ''missing'', severity = bad\<rparr>],
      Some [''memory'']) \<and>
   validateCgroupSubsystems ToUpper_ascii [''pids'', ''blkio''] [''cpu'', ''pids''] False
     [\<lparr>itemKey = ''CGROUPS_CPU'', status = ''enabled'', severity = good\<rparr>,
      \<lparr>itemKey = ''CGROUPS_MEMORY'', status = ''missing'', severity = bad\<rparr>] =
     ([\<lparr>itemKey = ''CGROUPS_CPU'', status = ''enabled'', severity = good\<rparr>,
       \<lparr>itemKey = ''CGROUPS_MEMORY'', status = ''missing'', severity = bad\<rparr>,
       \<lparr>itemKey = ''CGROUPS_PIDS'', status = ''enabled'', severity = good\<rparr>,
       \<lparr>itemKey = ''CGROUPS_BLKIO'', status = ''missing'', severity = warn\<rparr>],
      Some [''blkio'']) \<and>
   distinct ([''cpu'', ''memory''] @ [''pids'', ''blkio'']) \<and>
   (\<exists>warns errs.
      Validate ToUpper_ascii (readable [''cpu 1 1 1'', ''memory 2 1 0'', ''pids 3 1 1'']) []
        \<lparr>CgroupSpec = \<lparr>Required = [''cpu'', ''memory''], Optional = [''pids'', ''blkio'']\<rparr>\<rparr> =
        Inr ([\<lparr>itemKey = ''CGROUPS_CPU'', status = ''enabled'', severity = good\<rparr>,
              \<lparr>itemKey = ''CGROUPS_MEMORY'', status = ''missing'', severity = bad\<rparr>,
              \<lparr>itemKey = ''CGROUPS_PIDS'', status = ''enabled'', severity = good\<rparr>,
              \<lparr>itemKey = ''CGROUPS_BLKIO'', status = ''missing'', severity = warn\<rparr>],
             warns, errs))"
proof -
  have read: "getCgroupSubsystems (readable [''cpu 1 1 1'', ''memory 2 1 0'', ''pids 3 1 1'']) =
      Inr (Some [''cpu'', ''pids''], None)"
    by (simp add: readable_def line_def Fields_def space_width_def asciiSpace_def)
  have required:
    "validateCgroupSubsystems ToUpper_ascii
       (Required (CgroupSpec
          \<lparr>CgroupSpec = \<lparr>Required = [''cpu'', ''memory''], Optional = [''pids'', ''blkio'']\<rparr>\<rparr>))
       (elems (Some [''cpu'', ''pids''])) True [] =
     ([\<lparr>itemKey = ''CGROUPS_CPU'', status = ''enabled'', severity = good\<rparr>,
       \<lparr>itemKey = ''CGROUPS_MEMORY'', status = ''missing'', severity = bad\<rparr>],
      Some [''memory''])"
    by (simp add: evaluation)
  have optional:
    "validateCgroupSubsystems ToUpper_ascii
       (Optional (CgroupSpec
          \<lparr>CgroupSpec = \<lparr>Required = [''cpu'', ''memory''], Optional = [''pids'', ''blkio'']\<rparr>\<rparr>))
       (elems (Some [''cpu'', ''pids''])) False
       [\<lparr>itemKey = ''CGROUPS_CPU'', status = ''enabled'', severity = good\<rparr>,
        \<lparr>itemKey = ''CGROUPS_MEMORY'', status = ''missing'', severity = bad\<rparr>] =
     ([\<lparr>itemKey = ''CGROUPS_CPU'', status = ''enabled'', severity = good\<rparr>,
       \<lparr>itemKey = ''CGROUPS_MEMORY'', status = ''missing'', severity = bad\<rparr>,
       \<lparr>itemKey = ''CGROUPS_PIDS'', status = ''enabled'', severity = good\<rparr>,
       \<lparr>itemKey = ''CGROUPS_BLKIO'', status = ''missing'', severity = warn\<rparr>],
      Some [''blkio''])"
    by (simp add: evaluation)
  have run: "\<exists>warns errs.
      Validate ToUpper_ascii (readable [''cpu 1 1 1'', ''memory 2 1 0'', ''pids 3 1 1'']) []
        \<lparr>CgroupSpec = \<lparr>Required = [''cpu'', ''memory''], Optional = [''pids'', ''blkio'']\<rparr>\<rparr> =
        Inr ([\<lparr>itemKey = ''CGROUPS_CPU'', status = ''enabled'', severity = good\<rparr>,
              \<lparr>itemKey = ''CGROUPS_MEMORY'', status = ''missing'', severity = bad\<rparr>,
              \<lparr>itemKey = ''CGROUPS_PIDS'', status = ''enabled'', severity = good\<rparr>,
              \<lparr>itemKey = ''CGROUPS_BLKIO'', status = ''missing'', severity = warn\<rparr>],
             warns, errs)"
    using Validate_classifies_each_entry [OF read required optional] by (rule conjunct1)
  have names: "distinct ([''cpu'', ''memory''] @ [''pids'', ''blkio''])"
    by simp
  have required': "validateCgroupSubsystems ToUpper_ascii [''cpu'', ''memory''] [''cpu'', ''pids''] True [] =
     ([\<lparr>itemKey = ''CGROUPS_CPU'', status = ''enabled'', severity = good\<rparr>,
       \<lparr>itemKey = ''CGROUPS_MEMORY'', status = ''missing'', severity = bad\<rparr>],
      Some [''memory''])"
    using required by (simp add: elems_Some)
  have optional': "validateCgroupSubsystems ToUpper_ascii [''pids'', ''blkio''] [''cpu'', ''pids''] False
     [\<lparr>itemKey = ''CGROUPS_CPU'', status = ''enabled'', severity = good\<rparr>,
      \<lparr>itemKey = ''CGROUPS_MEMORY'', status = ''missing'', severity = bad\<rparr>] =
     ([\<lparr>itemKey = ''CGROUPS_CPU'', status = ''enabled'', severity = good\<rparr>,
       \<lparr>itemKey = ''CGROUPS_MEMORY'', status = ''missing'', severity = bad\<rparr>,
       \<lparr>itemKey = ''CGROUPS_PIDS'', status = ''enabled'', severity = good\<rparr>,
       \<lparr>itemKey = ''CGROUPS_BLKIO'', status = ''missing'', severity = warn\<rparr>],
      Some [''blkio''])"
    using optional by (simp add: elems_Some)
  from read required' optional' names run show ?thesis
    by (intro conjI)
qed

text \<open>
  For a specification whose required and optional lists are both empty, and a status
  source from which the reader returns the enabled names, \<^verbatim>\<open>Validate\<close> returns nil
  warnings and nil errors and the reporter receives no event.
\<close>

lemma Validate_empty_spec_read:
  assumes "getCgroupSubsystems src = Inr (subsystems, None)"
    and "Required (CgroupSpec spec) = []"
    and "Optional (CgroupSpec spec) = []"
  shows "Validate toUpper src reporter spec = Inr (reporter, None, None)"
  by (simp add: Validate_read_ok [OF assms(1)] assms(2,3) missing_names_def)

text \<open>
  C8. For a specification whose required and optional lists are both empty and any
  readable status source, \<^verbatim>\<open>Validate\<close> is to return nil warnings and nil errors. The
  status source below opens and reads without error and ends with an empty line: the
  reader panics at that line before \<^verbatim>\<open>Validate\<close> looks at the specification, and
  \<^verbatim>\<open>Validate\<close> returns nothing.
\<close>

theorem Validate_empty_spec_panics:
  "Validate ToUpper_ascii (readable [''cpu 1 1 1'', '''']) []
     \<lparr>CgroupSpec = \<lparr>Required = [], Optional = []\<rparr>\<rparr> = Inl IndexOutOfRange"
  by (simp add: evaluation)

text \<open>
  C9. \<^verbatim>\<open>Validate\<close> keeps no state between calls and does not read the reporter: a call
  on the same status source and specification, whatever the reporter has received before,
  panics if the first call panics, and otherwise emits the same events in the same order
  and returns the same warnings and errors.
\<close>

theorem Validate_repeatable:
  "case Validate toUpper src reporter spec of
     Inl p \<Rightarrow> Validate toUpper src reporter' spec = Inl p
   | Inr (reporter1, warns, errs) \<Rightarrow>
       \<exists>events. reporter1 = reporter @ events \<and>
         Validate toUpper src reporter' spec = Inr (reporter' @ events, warns, errs)"
proof (cases "getCgroupSubsystems src")
  case (Inl p)
  then show ?thesis
    by (simp add: Validate_read_panic)
next
  case (Inr r)
  obtain subsystems err where r: "r = (subsystems, err)"
    by (cases r) auto
  show ?thesis
  proof (cases err)
    case None
    with Inr r have "getCgroupSubsystems src = Inr (subsystems, None)"
      by simp
    then show ?thesis
      by (simp add: Validate_read_ok)
  next
    case (Some e)
    with Inr r have "getCgroupSubsystems src = Inr (subsystems, Some e)"
      by simp
    then show ?thesis
      by (simp add: Validate_read_error)
  qed
qed

theorem Validate_repeatable_witness:
  "Validate ToUpper_ascii (readable [''cpu 1 1 1'', ''memory 2 1 0'']) []
     \<lparr>CgroupSpec = \<lparr>Required = [''memory''], Optional = [''cpu'']\<rparr>\<rparr> =
     Inr ([\<lparr>itemKey = ''CGROUPS_MEMORY'', status = ''missing'', severity = bad\<rparr>,
           \<lparr>itemKey = ''CGROUPS_CPU'', status = ''enabled'', severity = good\<rparr>],
          None,
          Some [Errorf ''missing required cgroups: memory'']) \<and>
   Validate ToUpper_ascii (readable [''cpu 1 1 1'', ''memory 2 1 0''])
     [\<lparr>itemKey = ''CGROUPS_MEMORY'', status = ''missing'', severity = bad\<rparr>,
      \<lparr>itemKey = ''CGROUPS_CPU'', status = ''enabled'', severity = good\<rparr>]
     \<lparr>CgroupSpec = \<lparr>Required = [''memory''], Optional = [''cpu'']\<rparr>\<rparr> =
     Inr ([\<lparr>itemKey = ''CGROUPS_MEMORY'', status = ''missing'', severity = bad\<rparr>,
           \<lparr>itemKey = ''CGROUPS_CPU'', status = ''enabled'', severity = good\<rparr>,
           \<lparr>itemKey = ''CGROUPS_MEMORY'', status = ''missing'', severity = bad\<rparr>,
           \<lparr>itemKey = ''CGROUPS_CPU'', status = ''enabled'', severity = good\<rparr>],
          None,
          Some [Errorf ''missing required cgroups: memory''])"
proof -
  have first: "Validate ToUpper_ascii (readable [''cpu 1 1 1'', ''memory 2 1 0'']) []
      \<lparr>CgroupSpec = \<lparr>Required = [''memory''], Optional = [''cpu'']\<rparr>\<rparr> =
      Inr ([\<lparr>itemKey = ''CGROUPS_MEMORY'', status = ''missing'', severity = bad\<rparr>,
            \<lparr>itemKey = ''CGROUPS_CPU'', status = ''enabled'', severity = good\<rparr>],
           None,
           Some [Errorf ''missing required cgroups: memory''])"
    by (simp add: evaluation)
  show ?thesis
    using first Validate_repeatable [where toUpper = ToUpper_ascii
        and src = "readable [''cpu 1 1 1'', ''memory 2 1 0'']"
        and reporter = "[]"
        and spec = "\<lparr>CgroupSpec = \<lparr>Required = [''memory''], Optional = [''cpu'']\<rparr>\<rparr>"
        and reporter' = "[\<lparr>itemKey = ''CGROUPS_MEMORY'', status = ''missing'', severity = bad\<rparr>,
          \<lparr>itemKey = ''CGROUPS_CPU'', status = ''enabled'', severity = good\<rparr>]"]
    by simp
qed

text \<open>
  C10. A declared name is looked up in the enabled set by equality of strings: the lookup
  finds it exactly when an enabled name equals it, byte for byte. A declared name that an
  enabled name equals is reported enabled and kept out of the missing list; every other
  declared name is reported missing and appended to the missing list, whatever its
  upper-cased form, so also when it differs from an enabled name in letter case only and
  its report key is the key of that name.
\<close>

theorem validateCgroupSubsystems_exact_equality:
  "(found_in cgroup subsystems \<longleftrightarrow> cgroup \<in> set subsystems) \<and>
   (\<exists>events missing.
      validateCgroupSubsystems toUpper cgroups subsystems required reporter =
        (reporter @ events, missing) \<and>
      length events = length cgroups \<and>
      (\<forall>i<length cgroups.
         itemKey (events ! i) = ''CGROUPS_'' @ toUpper (cgroups ! i) \<and>
         (cgroups ! i \<in> set subsystems \<longrightarrow>
            status (events ! i) = ''enabled'' \<and> severity (events ! i) = good \<and>
            cgroups ! i \<notin> set (elems missing)) \<and>
         (cgroups ! i \<notin> set subsystems \<longrightarrow>
            status (events ! i) = ''missing'' \<and>
            severity (events ! i) = (if required then bad else warn) \<and>
            cgroups ! i \<in> set (elems missing))))"
proof -
  let ?events = "map (report_for toUpper subsystems required) cgroups"
  let ?missing = "if missing_names subsystems cgroups = [] then None
                  else Some (missing_names subsystems cgroups)"
  have missing: "elems ?missing = missing_names subsystems cgroups"
    by (simp add: elems_None elems_Some)
  have run: "validateCgroupSubsystems toUpper cgroups subsystems required reporter =
      (reporter @ ?events, ?missing)"
    by (rule validateCgroupSubsystems_eq)
  have count: "length ?events = length cgroups"
    by simp
  have each: "\<forall>i<length cgroups.
      itemKey (?events ! i) = ''CGROUPS_'' @ toUpper (cgroups ! i) \<and>
      (cgroups ! i \<in> set subsystems \<longrightarrow>
         status (?events ! i) = ''enabled'' \<and> severity (?events ! i) = good \<and>
         cgroups ! i \<notin> set (elems ?missing)) \<and>
      (cgroups ! i \<notin> set subsystems \<longrightarrow>
         status (?events ! i) = ''missing'' \<and>
         severity (?events ! i) = (if required then bad else warn) \<and>
         cgroups ! i \<in> set (elems ?missing))"
  proof (intro allI impI)
    fix i
    assume i: "i < length cgroups"
    then have "cgroups ! i \<in> set cgroups"
      by simp
    with i show "itemKey (?events ! i) = ''CGROUPS_'' @ toUpper (cgroups ! i) \<and>
      (cgroups ! i \<in> set subsystems \<longrightarrow>
         status (?events ! i) = ''enabled'' \<and> severity (?events ! i) = good \<and>
         cgroups ! i \<notin> set (elems ?missing)) \<and>
      (cgroups ! i \<notin> set subsystems \<longrightarrow>
         status (?events ! i) = ''missing'' \<and>
         severity (?events ! i) = (if required then bad else warn) \<and>
         cgroups ! i \<in> set (elems ?missing))"
      unfolding missing by (simp add: report_for_def missing_names_def)
  qed
  have "\<exists>events missing.
      validateCgroupSubsystems toUpper cgroups subsystems required reporter =
        (reporter @ events, missing) \<and>
      length events = length cgroups \<and>
      (\<forall>i<length cgroups.
         itemKey (events ! i) = ''CGROUPS_'' @ toUpper (cgroups ! i) \<and>
         (cgroups ! i \<in> set subsystems \<longrightarrow>
            status (events ! i) = ''enabled'' \<and> severity (events ! i) = good \<and>
            cgroups ! i \<notin> set (elems missing)) \<and>
         (cgroups ! i \<notin> set subsystems \<longrightarrow>
            status (events ! i) = ''missing'' \<and>
            severity (events ! i) = (if required then bad else warn) \<and>
            cgroups ! i \<in> set (elems missing)))"
    using run count each by (intro exI conjI)
  with found_in_iff [of cgroup subsystems] show ?thesis
    by (rule conjI)
qed

theorem validateCgroupSubsystems_exact_equality_witness:
  "found_in ''cpu'' [''cpu'', ''pids''] \<and> \<not> found_in ''CPU'' [''cpu'', ''pids''] \<and>
   ToUpper_ascii ''CPU'' = ToUpper_ascii ''cpu'' \<and>
   validateCgroupSubsystems ToUpper_ascii [''cpu'', ''CPU''] [''cpu'', ''pids''] True [] =
     ([\<lparr>itemKey = ''CGROUPS_CPU'', status = ''enabled'', severity = good\<rparr>,
       \<lparr>itemKey = ''CGROUPS_CPU'', status = ''missing'', severity = bad\<rparr>],
      Some [''CPU''])"
  using validateCgroupSubsystems_exact_equality [where toUpper = ToUpper_ascii
      and cgroup = "''cpu''" and cgroups = "[''cpu'', ''CPU'']"
      and subsystems = "[''cpu'', ''pids'']" and required = True and reporter = "[]"]
    validateCgroupSubsystems_exact_equality [where toUpper = ToUpper_ascii
      and cgroup = "''CPU''" and cgroups = "[''cpu'', ''CPU'']"
      and subsystems = "[''cpu'', ''pids'']" and required = True and reporter = "[]"]
  by (simp add: evaluation)

end
